theory Spec2Isabelle
  imports Complex_Main
begin

section \<open>WindMouse: trajectory generator and tick controllers\<close>

text \<open>
  The development follows \<^verbatim>\<open>core.py\<close> (the generator \<^verbatim>\<open>wind_mouse\<close>),
  \<^verbatim>\<open>pyautogui_controller.py\<close> and \<^verbatim>\<open>ahk_controller.py\<close> (the two \<^verbatim>\<open>tick\<close>
  methods).

  Numbers. The generator computes on IEEE doubles (\<^verbatim>\<open>np.float64\<close>). They are
  idealised here as the reals: \<open>+\<close>, \<open>*\<close>, \<open>/\<close> and \<open>sqrt\<close> are exact, so nothing below
  speaks about rounding error, overflow to infinity or underflow, and no theorem below
  promises that a run of the doubles is free of errors: at magnitudes near the largest
  double the code meets \<open>inf / inf\<close>, which the reals do not have. The one exception of
  the code that exact arithmetic does reach is \<open>0.0 / 0.0\<close> (a NaN, which
  \<^verbatim>\<open>int(np.round(...))\<close> rejects with \<^verbatim>\<open>ValueError\<close>); that branch is part of the
  model. The concrete inputs used below are dyadic rationals on which double arithmetic
  is exact, or lie well away from every comparison threshold.
\<close>

subsection \<open>Numeric primitives\<close>

type_synonym Coordinate = int

type_synonym point = "Coordinate \<times> Coordinate"

definition sqrt3 :: real where
  "sqrt3 = sqrt 3"

definition sqrt5 :: real where
  "sqrt5 = sqrt 5"

text \<open>\<^verbatim>\<open>np.hypot\<close>.\<close>

definition hypot :: "real \<Rightarrow> real \<Rightarrow> real" where
  "hypot x y = sqrt (x\<^sup>2 + y\<^sup>2)"

text \<open>
  \<^verbatim>\<open>int(np.round(x))\<close>: numpy rounds to the nearest integer and a tie to the even
  neighbour.
\<close>

definition np_round :: "real \<Rightarrow> int" where
  "np_round x =
     (let f = \<lfloor>x\<rfloor>; d = x - of_int f
      in if d < 1 / 2 then f
         else if 1 / 2 < d then f + 1
         else if even f then f else f + 1)"

text \<open>
  The pseudo-random source. \<^verbatim>\<open>np.random.random()\<close> reads and advances numpy's global
  generator; the model passes the stream of draws still to come explicitly: \<open>g 0\<close> is the
  next draw. numpy draws from the half-open interval \<open>[0, 1)\<close>.
\<close>

type_synonym rng = "nat \<Rightarrow> real"

definition np_random :: "rng \<Rightarrow> real \<times> rng" where
  "np_random g = (g 0, \<lambda>n. g (Suc n))"

definition unit_draws :: "rng \<Rightarrow> bool" where
  "unit_draws g = (\<forall>i. 0 \<le> g i \<and> g i < 1)"

subsection \<open>The generator's local variables\<close>

text \<open>
  One field per local variable of \<^verbatim>\<open>wind_mouse\<close>. The parameters \<^verbatim>\<open>start_x\<close>,
  \<^verbatim>\<open>start_y\<close> are reused by the code as the continuous working position, and
  \<^verbatim>\<open>max_step\<close> is reassigned in the loop, so all of them are part of the state.
\<close>

record wind_mouse_state =
  start_x :: real
  start_y :: real
  dest_x :: Coordinate
  dest_y :: Coordinate
  gravity_magnitude :: real
  wind_magnitude :: real
  max_step :: real
  damped_distance :: real
  current_x :: real
  current_y :: real
  velocity_x :: real
  velocity_y :: real
  wind_x :: real
  wind_y :: real

datatype error = ValueError

text \<open>Lines 37-38: the state in which the loop is entered for the first time.\<close>

definition wind_mouse ::
  "Coordinate \<Rightarrow> Coordinate \<Rightarrow> Coordinate \<Rightarrow> Coordinate \<Rightarrow> real \<Rightarrow> real \<Rightarrow> real \<Rightarrow> real
     \<Rightarrow> wind_mouse_state" where
  "wind_mouse sx sy dx dy gravity wind mstep damped =
     \<lparr>start_x = of_int sx, start_y = of_int sy, dest_x = dx, dest_y = dy,
      gravity_magnitude = gravity, wind_magnitude = wind, max_step = mstep,
      damped_distance = damped,
      current_x = of_int sx, current_y = of_int sy,
      velocity_x = 0, velocity_y = 0, wind_x = 0, wind_y = 0\<rparr>"

text \<open>The loop condition's \<^verbatim>\<open>dist := np.hypot(dest_x - start_x, dest_y - start_y)\<close>.\<close>

definition cur_dist :: "wind_mouse_state \<Rightarrow> real" where
  "cur_dist st = hypot (of_int (dest_x st) - start_x st) (of_int (dest_y st) - start_y st)"

subsection \<open>One iteration of the loop\<close>

text \<open>Lines 40-56: the wind update, and the braking of \<^verbatim>\<open>max_step\<close> near the target.\<close>

definition update_wind :: "rng \<Rightarrow> wind_mouse_state \<Rightarrow> wind_mouse_state \<times> rng" where
  "update_wind g st =
     (let dist = cur_dist st;
          wind_magnitude_current = min (wind_magnitude st) dist
      in if dist \<ge> damped_distance st then
           (let (r1, g1) = np_random g;
                wx = wind_x st / sqrt3 + (2 * r1 - 1) * wind_magnitude_current / sqrt5;
                (r2, g2) = np_random g1;
                wy = wind_y st / sqrt3 + (2 * r2 - 1) * wind_magnitude_current / sqrt5
            in (st\<lparr>wind_x := wx, wind_y := wy\<rparr>, g2))
         else
           (let st1 = st\<lparr>wind_x := wind_x st / sqrt3, wind_y := wind_y st / sqrt3\<rparr>
            in if max_step st1 < 3 then
                 (let (r, g1) = np_random g in (st1\<lparr>max_step := r * 3 + 3\<rparr>, g1))
               else (st1\<lparr>max_step := max_step st1 / sqrt5\<rparr>, g)))"

text \<open>
  Lines 57-63: gravity and wind accelerate the cursor, and a velocity longer than
  \<^verbatim>\<open>max_step\<close> is rescaled. The rescaling divides by the velocity's magnitude. That
  magnitude can only be zero under a negative \<^verbatim>\<open>max_step\<close>; the doubles then give
  \<open>0.0 / 0.0\<close>, the position becomes NaN and line 66 raises \<^verbatim>\<open>ValueError\<close>.
\<close>

definition update_velocity :: "rng \<Rightarrow> wind_mouse_state \<Rightarrow> (error + wind_mouse_state) \<times> rng" where
  "update_velocity g st =
     (let dist = cur_dist st;
          vx = velocity_x st
                 + (wind_x st + gravity_magnitude st * (of_int (dest_x st) - start_x st) / dist);
          vy = velocity_y st
                 + (wind_y st + gravity_magnitude st * (of_int (dest_y st) - start_y st) / dist);
          velocity_magnitude = hypot vx vy
      in if velocity_magnitude > max_step st then
           (let (r, g1) = np_random g;
                velocity_clip = max_step st / 2 + r * max_step st / 2
            in if velocity_magnitude = 0 then (Inl ValueError, g1)
               else (Inr (st\<lparr>velocity_x := (vx / velocity_magnitude) * velocity_clip,
                              velocity_y := (vy / velocity_magnitude) * velocity_clip\<rparr>), g1))
         else (Inr (st\<lparr>velocity_x := vx, velocity_y := vy\<rparr>), g))"

text \<open>
  Lines 64-70: the position advances, is rounded, and is yielded when it differs from
  \<^verbatim>\<open>current\<close>. On a yield the code stores the unrounded position \<^verbatim>\<open>start_x, start_y\<close>
  in \<^verbatim>\<open>current_x, current_y\<close>.
\<close>

definition advance :: "wind_mouse_state \<Rightarrow> point option \<times> wind_mouse_state" where
  "advance st =
     (let st1 = st\<lparr>start_x := start_x st + velocity_x st, start_y := start_y st + velocity_y st\<rparr>;
          move_x = np_round (start_x st1);
          move_y = np_round (start_y st1)
      in if current_x st1 \<noteq> of_int move_x \<or> current_y st1 \<noteq> of_int move_y then
           (Some (move_x, move_y), st1\<lparr>current_x := start_x st1, current_y := start_y st1\<rparr>)
         else (None, st1))"

text \<open>
  The loop body, lines 40-70. The wind update uses the distance before the step; the
  velocity update uses the same distance (the position has not moved yet) and the
  \<^verbatim>\<open>max_step\<close> the wind update has just written.
\<close>

definition loop_body ::
  "rng \<Rightarrow> wind_mouse_state \<Rightarrow> (error + point option \<times> wind_mouse_state) \<times> rng" where
  "loop_body g st =
     (let (st1, g1) = update_wind g st
      in case update_velocity g1 st1 of
           (Inl e, g2) \<Rightarrow> (Inl e, g2)
         | (Inr st2, g2) \<Rightarrow> (Inr (advance st2), g2))"

subsection \<open>Running the generator\<close>

text \<open>
  The loop has no iteration cap and may run forever, so the list of yielded points is
  taken from a bounded number of iterations: \<open>wind_mouse_run n g st\<close> performs at most
  \<open>n\<close> iterations from \<open>st\<close> and returns the points yielded, the final state, the
  remaining draws and how the run ended.
\<close>

datatype run_end = Exhausted | Raised error | Unfinished

fun wind_mouse_run ::
  "nat \<Rightarrow> rng \<Rightarrow> wind_mouse_state \<Rightarrow> point list \<times> wind_mouse_state \<times> rng \<times> run_end" where
  "wind_mouse_run 0 g st =
     (if cur_dist st \<ge> 1 then ([], st, g, Unfinished) else ([], st, g, Exhausted))"
| "wind_mouse_run (Suc n) g st =
     (if cur_dist st \<ge> 1 then
        (case loop_body g st of
           (Inl e, g1) \<Rightarrow> ([], st, g1, Raised e)
         | (Inr (out, st1), g1) \<Rightarrow>
             (case wind_mouse_run n g1 st1 of
                (ys, rest) \<Rightarrow> ((case out of None \<Rightarrow> ys | Some p \<Rightarrow> p # ys), rest)))
      else ([], st, g, Exhausted))"

subsection \<open>Pulling one point from the generator\<close>

text \<open>
  A Python generator object is either suspended at a \<^verbatim>\<open>yield\<close> (or not yet started) with
  its local variables, or closed. \<^verbatim>\<open>next\<close> on it resumes the loop until the next yield,
  until the loop condition fails (\<^verbatim>\<open>StopIteration\<close>), or until an exception escapes. The
  loop may also never reach any of the three, and then the value below is \<open>None\<close>.
\<close>

datatype generator = Suspended wind_mouse_state | Closed

partial_function (option) wind_mouse_loop ::
  "rng \<Rightarrow> wind_mouse_state \<Rightarrow> ((error + point option \<times> wind_mouse_state) \<times> rng) option" where
  "wind_mouse_loop g st =
     (if cur_dist st \<ge> 1 then
        (case loop_body g st of
           (Inl e, g1) \<Rightarrow> Some (Inl e, g1)
         | (Inr (Some p, st1), g1) \<Rightarrow> Some (Inr (Some p, st1), g1)
         | (Inr (None, st1), g1) \<Rightarrow> wind_mouse_loop g1 st1)
      else Some (Inr (None, st), g))"

text \<open>
  \<open>Inr (Some p)\<close> is a yielded point, \<open>Inr None\<close> is \<^verbatim>\<open>StopIteration\<close>, \<open>Inl e\<close> an
  exception. A generator that has stopped or raised is closed, and stays so.
\<close>

definition generator_next ::
  "rng \<Rightarrow> generator \<Rightarrow> ((error + point option) \<times> generator \<times> rng) option" where
  "generator_next g gen =
     (case gen of
        Closed \<Rightarrow> Some (Inr None, Closed, g)
      | Suspended st \<Rightarrow>
          (case wind_mouse_loop g st of
             None \<Rightarrow> None
           | Some (Inl e, g1) \<Rightarrow> Some (Inl e, Closed, g1)
           | Some (Inr (Some p, st1), g1) \<Rightarrow> Some (Inr (Some p), Suspended st1, g1)
           | Some (Inr (None, st1), g1) \<Rightarrow> Some (Inr None, Closed, g1)))"

text \<open>
  The call \<^verbatim>\<open>wind_mouse(...)\<close> itself. The function contains a \<^verbatim>\<open>yield\<close>, so the call
  runs no line of its body: it returns the generator object, and lines 37-38 run at the
  first \<^verbatim>\<open>next\<close>. No line of the body tests a parameter or raises, so the result is a
  generator for every tuple of arguments.
\<close>

definition wind_mouse_generator ::
  "Coordinate \<Rightarrow> Coordinate \<Rightarrow> Coordinate \<Rightarrow> Coordinate \<Rightarrow> real \<Rightarrow> real \<Rightarrow> real \<Rightarrow> real
     \<Rightarrow> error + generator" where
  "wind_mouse_generator sx sy dx dy gravity wind mstep damped =
     Inr (Suspended (wind_mouse sx sy dx dy gravity wind mstep damped))"

subsection \<open>The backends\<close>

text \<open>
  The two controllers talk to \<^verbatim>\<open>pyautogui\<close> and to an \<^verbatim>\<open>AHK\<close> object. Both are
  modelled by the pointer position and the log of the calls made:
  \<^verbatim>\<open>pyautogui.moveTo(x, y, duration=...)\<close>, \<^verbatim>\<open>pyautogui.position()\<close>,
  \<^verbatim>\<open>ahk.mouse_move(x, y, speed=..., coord_mode="Screen")\<close> and
  \<^verbatim>\<open>ahk.get_mouse_position(coord_mode="Screen")\<close>.
\<close>

datatype backend_call =
    MoveTo Coordinate Coordinate real
  | Position
  | MouseMove Coordinate Coordinate real
  | GetMousePosition

record backend =
  pointer :: point
  calls :: "backend_call list"

definition is_move :: "backend_call \<Rightarrow> bool" where
  "is_move a = (case a of MoveTo x y d \<Rightarrow> True | MouseMove x y d \<Rightarrow> True | _ \<Rightarrow> False)"

text \<open>The calls of the move primitive made so far.\<close>

definition moves :: "backend \<Rightarrow> backend_call list" where
  "moves b = filter is_move (calls b)"

type_synonym position_query = "backend \<Rightarrow> Coordinate \<times> backend"

text \<open>\<^verbatim>\<open>_get_current_mouse_x\<close> and \<^verbatim>\<open>_get_current_mouse_y\<close> of the two controllers.\<close>

definition pyautogui_get_current_mouse_x :: position_query where
  "pyautogui_get_current_mouse_x b = (fst (pointer b), b\<lparr>calls := calls b @ [Position]\<rparr>)"

definition pyautogui_get_current_mouse_y :: position_query where
  "pyautogui_get_current_mouse_y b = (snd (pointer b), b\<lparr>calls := calls b @ [Position]\<rparr>)"

definition ahk_get_current_mouse_x :: position_query where
  "ahk_get_current_mouse_x b = (fst (pointer b), b\<lparr>calls := calls b @ [GetMousePosition]\<rparr>)"

definition ahk_get_current_mouse_y :: position_query where
  "ahk_get_current_mouse_y b = (snd (pointer b), b\<lparr>calls := calls b @ [GetMousePosition]\<rparr>)"

definition pyautogui_moveTo :: "Coordinate \<Rightarrow> Coordinate \<Rightarrow> real \<Rightarrow> backend \<Rightarrow> backend" where
  "pyautogui_moveTo x y duration b =
     b\<lparr>pointer := (x, y), calls := calls b @ [MoveTo x y duration]\<rparr>"

definition ahk_mouse_move :: "Coordinate \<Rightarrow> Coordinate \<Rightarrow> real \<Rightarrow> backend \<Rightarrow> backend" where
  "ahk_mouse_move x y speed b =
     b\<lparr>pointer := (x, y), calls := calls b @ [MouseMove x y speed]\<rparr>"

subsection \<open>The controller\<close>

text \<open>
  Modelled from the spec: the fields of \<^verbatim>\<open>AbstractMouseController\<close>. \<^verbatim>\<open>core.py\<close> holds
  only the abstract signatures (the constructor's arguments and their documentation); the
  attributes behind them are missing. The spec gives the controller the configured start
  and destination (each optional), the four physical parameters, a handle to the live
  generator of the current target, created lazily, and the last point yielded.
\<close>

record controller =
  c_start_x :: "Coordinate option"
  c_start_y :: "Coordinate option"
  c_dest_x :: "Coordinate option"
  c_dest_y :: "Coordinate option"
  c_gravity_magnitude :: real
  c_wind_magnitude :: real
  c_max_step :: real
  c_damped_distance :: real
  c_generator :: "generator option"
  c_last_point :: "point option"

text \<open>
  Modelled from the spec: the constructor, which fixes start, destination and parameters
  and builds no generator yet.
\<close>

definition controller_init ::
  "Coordinate option \<Rightarrow> Coordinate option \<Rightarrow> Coordinate option \<Rightarrow> Coordinate option
     \<Rightarrow> real \<Rightarrow> real \<Rightarrow> real \<Rightarrow> real \<Rightarrow> controller" where
  "controller_init sx sy dx dy gravity wind mstep damped =
     \<lparr>c_start_x = sx, c_start_y = sy, c_dest_x = dx, c_dest_y = dy,
      c_gravity_magnitude = gravity, c_wind_magnitude = wind, c_max_step = mstep,
      c_damped_distance = damped, c_generator = None, c_last_point = None\<rparr>"

text \<open>
  Modelled from the spec: \<^verbatim>\<open>_get_next_point\<close>, which both \<^verbatim>\<open>tick\<close> methods call and
  which is missing from \<^verbatim>\<open>core.py\<close>. Without a target it returns \<^verbatim>\<open>None\<close> at once.
  Otherwise it builds the generator if there is none yet, resolving an unset start
  coordinate from the backend's pointer position at that moment, pulls one point from
  the generator, and returns the point, or \<^verbatim>\<open>None\<close> when the generator is exhausted.
\<close>

definition get_next_point ::
  "position_query \<Rightarrow> position_query \<Rightarrow> rng \<Rightarrow> controller \<Rightarrow> backend
     \<Rightarrow> ((error + point option) \<times> controller \<times> backend \<times> rng) option" where
  "get_next_point get_x get_y g c b =
     (case (c_dest_x c, c_dest_y c) of
        (Some dx, Some dy) \<Rightarrow>
          (let (gen, b2) =
                 (case c_generator c of
                    Some gen \<Rightarrow> (gen, b)
                  | None \<Rightarrow>
                      (let (sx, b1) = (case c_start_x c of Some x \<Rightarrow> (x, b) | None \<Rightarrow> get_x b);
                           (sy, b2) = (case c_start_y c of Some y \<Rightarrow> (y, b1) | None \<Rightarrow> get_y b1)
                       in (Suspended (wind_mouse sx sy dx dy (c_gravity_magnitude c)
                             (c_wind_magnitude c) (c_max_step c) (c_damped_distance c)), b2)))
           in case generator_next g gen of
                None \<Rightarrow> None
              | Some (Inl e, gen1, g1) \<Rightarrow> Some (Inl e, c\<lparr>c_generator := Some gen1\<rparr>, b2, g1)
              | Some (Inr None, gen1, g1) \<Rightarrow> Some (Inr None, c\<lparr>c_generator := Some gen1\<rparr>, b2, g1)
              | Some (Inr (Some p), gen1, g1) \<Rightarrow>
                  Some (Inr (Some p), c\<lparr>c_generator := Some gen1, c_last_point := Some p\<rparr>, b2, g1))
      | _ \<Rightarrow> Some (Inr None, c, b, g))"

text \<open>
  \<^verbatim>\<open>PyautoguiMouseController.tick\<close> and \<^verbatim>\<open>AHKMouseController.tick\<close>, as in the source:
  \<^verbatim>\<open>None\<close> from \<^verbatim>\<open>_get_next_point\<close> returns \<^verbatim>\<open>False\<close> before the backend is touched, a
  point is forwarded to the backend's move primitive and \<^verbatim>\<open>True\<close> is returned. An
  exception of the generator passes through, and a pull that never returns makes the
  tick never return.
\<close>

definition PyautoguiMouseController_tick ::
  "real \<Rightarrow> rng \<Rightarrow> controller \<Rightarrow> backend
     \<Rightarrow> ((error + bool) \<times> controller \<times> backend \<times> rng) option" where
  "PyautoguiMouseController_tick step_duration g c b =
     (case get_next_point pyautogui_get_current_mouse_x pyautogui_get_current_mouse_y g c b of
        None \<Rightarrow> None
      | Some (Inl e, c1, b1, g1) \<Rightarrow> Some (Inl e, c1, b1, g1)
      | Some (Inr None, c1, b1, g1) \<Rightarrow> Some (Inr False, c1, b1, g1)
      | Some (Inr (Some coords), c1, b1, g1) \<Rightarrow>
          Some (Inr True, c1, pyautogui_moveTo (fst coords) (snd coords) step_duration b1, g1))"

definition AHKMouseController_tick ::
  "real \<Rightarrow> rng \<Rightarrow> controller \<Rightarrow> backend
     \<Rightarrow> ((error + bool) \<times> controller \<times> backend \<times> rng) option" where
  "AHKMouseController_tick step_duration g c b =
     (case get_next_point ahk_get_current_mouse_x ahk_get_current_mouse_y g c b of
        None \<Rightarrow> None
      | Some (Inl e, c1, b1, g1) \<Rightarrow> Some (Inl e, c1, b1, g1)
      | Some (Inr None, c1, b1, g1) \<Rightarrow> Some (Inr False, c1, b1, g1)
      | Some (Inr (Some coords), c1, b1, g1) \<Rightarrow>
          Some (Inr True, c1, ahk_mouse_move (fst coords) (snd coords) step_duration b1, g1))"

subsection \<open>Concrete inputs\<close>

text \<open>Two streams of draws, and the states of the runs evaluated further down.\<close>

definition draws_zero :: rng where
  "draws_zero = (\<lambda>i. 0)"

definition draws_half :: rng where
  "draws_half = (\<lambda>i. 1 / 2)"

text \<open>
  From \<open>(0, 0)\<close> to \<open>(3, 4)\<close> with gravity \<open>5.875\<close> and the other parameters at their
  defaults: one step of length \<open>5.875\<close> along the line to the target, which overshoots it.
\<close>

abbreviation overshoot_start :: wind_mouse_state where
  "overshoot_start \<equiv> wind_mouse 0 0 3 4 (47 / 8) 3 15 12"

abbreviation overshoot_end :: wind_mouse_state where
  "overshoot_end \<equiv> overshoot_start
     \<lparr>start_x := 141 / 40, start_y := 47 / 10, max_step := 15 / sqrt 5,
      current_x := 141 / 40, current_y := 47 / 10,
      velocity_x := 141 / 40, velocity_y := 47 / 10\<rparr>"

text \<open>From \<open>(0, 0)\<close> to \<open>(20, 0)\<close> with the default parameters: the free regime.\<close>

abbreviation free_start :: wind_mouse_state where
  "free_start \<equiv> wind_mouse 0 0 20 0 9 3 15 12"

abbreviation free_next :: wind_mouse_state where
  "free_next \<equiv> free_start\<lparr>start_x := 9, current_x := 9, velocity_x := 9\<rparr>"



text \<open>From \<open>(0, 0)\<close> to \<open>(3, 4)\<close> with gravity \<open>1\<close> and \<^verbatim>\<open>max_step\<close> \<open>2\<close>, below \<open>3\<close>.\<close>

abbreviation braking_start :: wind_mouse_state where
  "braking_start \<equiv> wind_mouse 0 0 3 4 1 3 2 12"

abbreviation braking_next :: wind_mouse_state where
  "braking_next \<equiv> braking_start
     \<lparr>start_x := 3 / 5, start_y := 4 / 5, max_step := 9 / 2,
      current_x := 3 / 5, current_y := 4 / 5,
      velocity_x := 3 / 5, velocity_y := 4 / 5\<rparr>"

abbreviation idle_backend :: backend where
  "idle_backend \<equiv> \<lparr>pointer = (7, 7), calls = []\<rparr>"

abbreviation resting_controller :: controller where
  "resting_controller \<equiv> controller_init (Some 0) (Some 0) (Some 0) (Some 0) 9 3 15 12"

abbreviation overshoot_controller :: controller where
  "overshoot_controller \<equiv> controller_init (Some 0) (Some 0) (Some 3) (Some 4) (47 / 8) 3 15 12"

section \<open>Auxiliary facts\<close>

subsection \<open>Square roots, distances and rounding\<close>

lemma sqrt5_pos: "0 < sqrt5"
  by (simp add: sqrt5_def)

lemma sqrt5_sq: "sqrt5 * sqrt5 = 5"
  by (simp add: sqrt5_def)

lemma sqrt5_upper: "sqrt5 < 5 / 2"
  unfolding sqrt5_def by (rule real_less_lsqrt) (simp_all add: power2_eq_square)

lemma div_sqrt5_not_less: "b * 5 \<le> a * 2 \<Longrightarrow> 0 \<le> a \<Longrightarrow> \<not> a / sqrt5 < b"
proof -
  assume h: "b * 5 \<le> a * 2" "0 \<le> a"
  have "a / (5 / 2) \<le> a / sqrt5"
    using sqrt5_upper sqrt5_pos h(2) by (intro divide_left_mono) simp_all
  then have "a * 2 / 5 \<le> a / sqrt5" by simp
  with h(1) show ?thesis by linarith
qed

lemma hypot_zero_right: "hypot x 0 = \<bar>x\<bar>"
  by (simp add: hypot_def)

lemma hypot_nonneg: "0 \<le> hypot x y"
  by (simp add: hypot_def)

lemma hypot_commute: "hypot x y = hypot y x"
  by (simp add: hypot_def add.commute)

lemma hypot_minus [simp]: "hypot (- x) y = hypot x y" "hypot x (- y) = hypot x y"
  by (simp_all add: hypot_def)

lemma hypot_eqI: "0 \<le> c \<Longrightarrow> x\<^sup>2 + y\<^sup>2 = c\<^sup>2 \<Longrightarrow> hypot x y = c"
  by (simp add: hypot_def)


lemma abs_le_hypot: "\<bar>x\<bar> \<le> hypot x y"
proof -
  have "sqrt (x\<^sup>2) \<le> sqrt (x\<^sup>2 + y\<^sup>2)" by (rule real_sqrt_le_mono) simp
  then show ?thesis by (simp add: hypot_def)
qed

lemma hypot_3_4: "hypot 3 4 = 5"
  by (rule hypot_eqI) simp_all

lemma hypot_step: "hypot (141 / 40) (47 / 10) = 47 / 8"
  by (rule hypot_eqI) (simp_all add: power2_eq_square)

lemma hypot_rest: "hypot (21 / 40) (7 / 10) = 7 / 8"
  by (rule hypot_eqI) (simp_all add: power2_eq_square)

lemma hypot_unit: "hypot (3 / 5) (4 / 5) = 1"
  by (rule hypot_eqI) (simp_all add: power2_eq_square)

lemmas hypot_values = hypot_zero_right hypot_3_4 hypot_step hypot_rest hypot_unit

lemma np_round_of_int: "np_round (of_int k) = k"
  by (simp add: np_round_def)

lemma np_round_near: "\<bar>of_int (np_round x) - x\<bar> \<le> 1 / 2"
proof -
  have "of_int \<lfloor>x\<rfloor> \<le> x" and "x < of_int \<lfloor>x\<rfloor> + 1" by linarith+
  then show ?thesis by (auto simp: np_round_def Let_def)
qed

lemma rounded_near_dest:
  assumes "hypot (of_int d - x) (of_int e - y) < 1"
  shows "\<bar>np_round x - d\<bar> \<le> 1 \<and> \<bar>np_round y - e\<bar> \<le> 1"
proof -
  have "\<bar>of_int d - x\<bar> < 1"
    using abs_le_hypot[of "of_int d - x" "of_int e - y"] assms by linarith
  moreover have "\<bar>of_int (np_round x) - x\<bar> \<le> 1 / 2" by (rule np_round_near)
  ultimately have "\<bar>real_of_int (np_round x) - real_of_int d\<bar> < 2" by linarith
  then have "real_of_int \<bar>np_round x - d\<bar> < 2" by simp
  then have x: "\<bar>np_round x - d\<bar> < 2" by linarith
  have "\<bar>of_int e - y\<bar> \<le> hypot (of_int d - x) (of_int e - y)"
    by (subst hypot_commute) (rule abs_le_hypot)
  then have "\<bar>of_int e - y\<bar> < 1" using assms by linarith
  moreover have "\<bar>of_int (np_round y) - y\<bar> \<le> 1 / 2" by (rule np_round_near)
  ultimately have "\<bar>real_of_int (np_round y) - real_of_int e\<bar> < 2" by linarith
  then have "real_of_int \<bar>np_round y - e\<bar> < 2" by simp
  then have y: "\<bar>np_round y - e\<bar> < 2" by linarith
  from x y show ?thesis by simp
qed

lemma unit_draws_half: "unit_draws draws_half"
  by (simp add: unit_draws_def draws_half_def)

subsection \<open>What each phase of the loop body leaves alone\<close>

lemma update_wind_frame:
  "update_wind g st = (st1, g1) \<Longrightarrow>
     start_x st1 = start_x st \<and> start_y st1 = start_y st \<and> dest_x st1 = dest_x st \<and>
     dest_y st1 = dest_y st \<and> gravity_magnitude st1 = gravity_magnitude st \<and>
     wind_magnitude st1 = wind_magnitude st \<and> damped_distance st1 = damped_distance st \<and>
     current_x st1 = current_x st \<and> current_y st1 = current_y st \<and>
     velocity_x st1 = velocity_x st \<and> velocity_y st1 = velocity_y st"
  by (auto simp: update_wind_def Let_def np_random_def split: if_splits)

lemma update_velocity_frame:
  "update_velocity g st = (Inr st1, g1) \<Longrightarrow>
     start_x st1 = start_x st \<and> start_y st1 = start_y st \<and> dest_x st1 = dest_x st \<and>
     dest_y st1 = dest_y st \<and> gravity_magnitude st1 = gravity_magnitude st \<and>
     wind_magnitude st1 = wind_magnitude st \<and> damped_distance st1 = damped_distance st \<and>
     current_x st1 = current_x st \<and> current_y st1 = current_y st \<and>
     wind_x st1 = wind_x st \<and> wind_y st1 = wind_y st \<and> max_step st1 = max_step st"
  by (auto simp: update_velocity_def Let_def np_random_def split: if_splits)

lemma advance_frame:
  "advance st = (out, st1) \<Longrightarrow>
     dest_x st1 = dest_x st \<and>
     dest_y st1 = dest_y st \<and> gravity_magnitude st1 = gravity_magnitude st \<and>
     wind_magnitude st1 = wind_magnitude st \<and> damped_distance st1 = damped_distance st \<and>
     velocity_x st1 = velocity_x st \<and> velocity_y st1 = velocity_y st \<and>
     wind_x st1 = wind_x st \<and> wind_y st1 = wind_y st \<and> max_step st1 = max_step st \<and>
     start_x st1 = start_x st + velocity_x st \<and> start_y st1 = start_y st + velocity_y st"
  by (auto simp: advance_def Let_def split: if_splits)

lemma loop_body_InrD:
  "loop_body g st = (Inr (out, st'), g') \<Longrightarrow>
     \<exists>st1 g1 st2. update_wind g st = (st1, g1) \<and> update_velocity g1 st1 = (Inr st2, g')
        \<and> advance st2 = (out, st')"
  by (auto simp: loop_body_def split: prod.splits sum.splits)

lemma loop_body_frame:
  assumes "loop_body g st = (Inr (out, st'), g')"
  shows "dest_x st' = dest_x st \<and> dest_y st' = dest_y st \<and>
     gravity_magnitude st' = gravity_magnitude st \<and> wind_magnitude st' = wind_magnitude st \<and>
     damped_distance st' = damped_distance st"
proof -
  from loop_body_InrD[OF assms] obtain st1 g1 st2 where
    a: "update_wind g st = (st1, g1)" and b: "update_velocity g1 st1 = (Inr st2, g')"
    and c: "advance st2 = (out, st')" by blast
  show ?thesis
    using update_wind_frame[OF a] update_velocity_frame[OF b] advance_frame[OF c] by simp
qed

subsection \<open>The velocity update\<close>




subsection \<open>Emission\<close>

lemma advance_Some:
  "advance st = (Some p, st') \<Longrightarrow>
     p = (np_round (start_x st'), np_round (start_y st'))
   \<and> current_x st' = start_x st' \<and> current_y st' = start_y st'"
  by (auto simp: advance_def Let_def split: if_splits)

lemma advance_None:
  "advance st = (None, st') \<Longrightarrow>
     current_x st' = of_int (np_round (start_x st'))
   \<and> current_y st' = of_int (np_round (start_y st'))
   \<and> current_x st' = current_x st \<and> current_y st' = current_y st"
  by (auto simp: advance_def Let_def split: if_splits)

lemma loop_body_Some:
  assumes "loop_body g st = (Inr (Some p, st'), g')"
  shows "p = (np_round (start_x st'), np_round (start_y st'))
   \<and> current_x st' = start_x st' \<and> current_y st' = start_y st'"
proof -
  from loop_body_InrD[OF assms] obtain st2 where "advance st2 = (Some p, st')" by blast
  then show ?thesis by (rule advance_Some)
qed

lemma loop_body_None:
  assumes "loop_body g st = (Inr (None, st'), g')"
  shows "current_x st' = of_int (np_round (start_x st'))
   \<and> current_y st' = of_int (np_round (start_y st'))
   \<and> current_x st' = current_x st \<and> current_y st' = current_y st"
proof -
  from loop_body_InrD[OF assms] obtain st1 g1 st2 where
    a: "update_wind g st = (st1, g1)" and b: "update_velocity g1 st1 = (Inr st2, g')"
    and d: "advance st2 = (None, st')" by blast
  show ?thesis
    using update_wind_frame[OF a] update_velocity_frame[OF b] advance_None[OF d] by simp
qed

subsection \<open>Runs\<close>

lemma wind_mouse_run_SucE:
  assumes "wind_mouse_run (Suc n) g st = (ys, st', g', e)"
  shows "(\<not> 1 \<le> cur_dist st \<and> ys = [] \<and> st' = st \<and> g' = g \<and> e = Exhausted)
       \<or> (1 \<le> cur_dist st \<and> (\<exists>er. loop_body g st = (Inl er, g') \<and> ys = [] \<and> st' = st
              \<and> e = Raised er))
       \<or> (1 \<le> cur_dist st \<and> (\<exists>out st1 g1 ys1. loop_body g st = (Inr (out, st1), g1)
              \<and> wind_mouse_run n g1 st1 = (ys1, st', g', e)
              \<and> ys = (case out of None \<Rightarrow> ys1 | Some p \<Rightarrow> p # ys1)))"
  using assms by (auto split: if_splits prod.splits sum.splits)

lemma run_frame:
  "wind_mouse_run n g st = (ys, st', g', e) \<Longrightarrow>
     gravity_magnitude st' = gravity_magnitude st \<and> wind_magnitude st' = wind_magnitude st
   \<and> damped_distance st' = damped_distance st \<and> dest_x st' = dest_x st \<and> dest_y st' = dest_y st"
proof (induction n arbitrary: g st ys)
  case 0
  then show ?case by (auto split: if_splits)
next
  case (Suc n)
  from wind_mouse_run_SucE[OF Suc.prems] show ?case
  proof (elim disjE conjE exE)
    fix out st1 g1 ys1
    assume lb: "loop_body g st = (Inr (out, st1), g1)"
      and run: "wind_mouse_run n g1 st1 = (ys1, st', g', e)"
    from Suc.IH[OF run] loop_body_frame[OF lb] show ?thesis by simp
  qed simp_all
qed

lemma run_exhausted_dist:
  "wind_mouse_run n g st = (ys, st', g', Exhausted) \<Longrightarrow> cur_dist st' < 1"
proof (induction n arbitrary: g st ys)
  case 0
  then show ?case by (auto split: if_splits)
next
  case (Suc n)
  from wind_mouse_run_SucE[OF Suc.prems] show ?case
    by (elim disjE conjE exE) (auto dest: Suc.IH)
qed

text \<open>
  A run that ends without a yield leaves the state alone, or ends on a rounded position
  equal to \<^verbatim>\<open>current\<close>.
\<close>

lemma run_silent:
  "wind_mouse_run n g st = ([], st', g', Exhausted) \<Longrightarrow>
     st' = st \<or> (current_x st = of_int (np_round (start_x st'))
                \<and> current_y st = of_int (np_round (start_y st')))"
proof (induction n arbitrary: g st)
  case 0
  then show ?case by (auto split: if_splits)
next
  case (Suc n)
  from wind_mouse_run_SucE[OF Suc.prems] show ?case
  proof (elim disjE conjE exE)
    fix out st1 g1 ys1
    assume lb: "loop_body g st = (Inr (out, st1), g1)"
      and run: "wind_mouse_run n g1 st1 = (ys1, st', g', Exhausted)"
      and ys: "[] = (case out of None \<Rightarrow> ys1 | Some p \<Rightarrow> p # ys1)"
    from ys have out: "out = None" and ys1: "ys1 = []" by (auto split: option.splits)
    note s = loop_body_None[OF lb[unfolded out]]
    from Suc.IH[OF run[unfolded ys1]] s show ?thesis by auto
  qed simp_all
qed

lemma run_last:
  "wind_mouse_run n g st = (ys, st', g', Exhausted) \<Longrightarrow> ys \<noteq> [] \<Longrightarrow>
     last ys = (np_round (start_x st'), np_round (start_y st'))"
proof (induction n arbitrary: g st ys)
  case 0
  then show ?case by (auto split: if_splits)
next
  case (Suc n)
  from wind_mouse_run_SucE[OF Suc.prems(1)] show ?case
  proof (elim disjE conjE exE)
    fix out st1 g1 ys1
    assume lb: "loop_body g st = (Inr (out, st1), g1)"
      and run: "wind_mouse_run n g1 st1 = (ys1, st', g', Exhausted)"
      and ys: "ys = (case out of None \<Rightarrow> ys1 | Some p \<Rightarrow> p # ys1)"
    show ?thesis
    proof (cases "ys1 = []")
      case False
      then have "last ys = last ys1" using ys by (auto split: option.splits)
      with Suc.IH[OF run False] show ?thesis by simp
    next
      case True
      with ys Suc.prems(2) obtain p where out: "out = Some p" and yp: "ys = [p]"
        by (auto split: option.splits)
      note s = loop_body_Some[OF lb[unfolded out]]
      from run_silent[OF run[unfolded True]] show ?thesis
      proof
        assume "st' = st1"
        with s yp show ?thesis by simp
      next
        assume c: "current_x st1 = of_int (np_round (start_x st'))
                \<and> current_y st1 = of_int (np_round (start_y st'))"
        with s have "start_x st1 = of_int (np_round (start_x st'))"
          and "start_y st1 = of_int (np_round (start_y st'))" by simp_all
        then have "np_round (start_x st1) = np_round (start_x st')"
          and "np_round (start_y st1) = np_round (start_y st')"
          by (simp_all add: np_round_of_int)
        with s yp show ?thesis by simp
      qed
    qed
  next
    assume "ys = []"
    with Suc.prems(2) show ?thesis by simp
  qed simp_all
qed

subsection \<open>The generator object and the controller\<close>

lemma cur_dist_at_start: "cur_dist (wind_mouse x y x y gravity wind mstep damped) = 0"
  by (simp add: cur_dist_def wind_mouse_def hypot_def)

lemma wind_mouse_loop_exit:
  "\<not> 1 \<le> cur_dist st \<Longrightarrow> wind_mouse_loop g st = Some (Inr (None, st), g)"
  by (subst wind_mouse_loop.simps) simp

lemma generator_next_stop:
  "generator_next g gen = Some (Inr None, gen1, g1) \<Longrightarrow> gen1 = Closed"
  by (auto simp: generator_next_def split: generator.splits option.splits prod.splits sum.splits)

lemma generator_next_Closed: "generator_next g Closed = Some (Inr None, Closed, g)"
  by (simp add: generator_next_def)

lemma get_next_point_stopD:
  assumes "get_next_point get_x get_y g c b = Some (Inr None, c', b', g')"
  shows "(c_dest_x c' = None \<or> c_dest_y c' = None) \<or> c_generator c' = Some Closed"
  using assms
  by (auto simp: get_next_point_def Let_def
      split: option.splits prod.splits sum.splits dest: generator_next_stop)

lemma get_next_point_done:
  assumes "(c_dest_x c = None \<or> c_dest_y c = None) \<or> c_generator c = Some Closed"
  shows "get_next_point get_x get_y g c b = Some (Inr None, c, b, g)"
  using assms
  by (auto simp: get_next_point_def Let_def generator_next_Closed split: option.splits)

lemma moves_query [simp]:
  "moves (snd (pyautogui_get_current_mouse_x b)) = moves b"
  "moves (snd (pyautogui_get_current_mouse_y b)) = moves b"
  "moves (snd (ahk_get_current_mouse_x b)) = moves b"
  "moves (snd (ahk_get_current_mouse_y b)) = moves b"
  by (simp_all add: moves_def is_move_def pyautogui_get_current_mouse_x_def
      pyautogui_get_current_mouse_y_def ahk_get_current_mouse_x_def ahk_get_current_mouse_y_def)

lemma get_next_point_moves:
  assumes "get_next_point get_x get_y g c b = Some (r, c', b', g')"
    and "\<And>b. moves (snd (get_x b)) = moves b" and "\<And>b. moves (snd (get_y b)) = moves b"
  shows "moves b' = moves b"
proof -
  have x: "\<And>b v b1. get_x b = (v, b1) \<Longrightarrow> moves b1 = moves b" using assms(2) by (metis snd_conv)
  have y: "\<And>b v b1. get_y b = (v, b1) \<Longrightarrow> moves b1 = moves b" using assms(3) by (metis snd_conv)
  show ?thesis using assms(1)
    by (auto simp: get_next_point_def Let_def
      split: option.splits prod.splits sum.splits dest!: x y)
qed

lemma pyautogui_tick_cases:
  "PyautoguiMouseController_tick d g c b = Some (Inr False, c', b', g') \<longleftrightarrow>
     get_next_point pyautogui_get_current_mouse_x pyautogui_get_current_mouse_y g c b
       = Some (Inr None, c', b', g')"
  by (auto simp: PyautoguiMouseController_tick_def split: option.splits prod.splits sum.splits)

lemma ahk_tick_cases:
  "AHKMouseController_tick d g c b = Some (Inr False, c', b', g') \<longleftrightarrow>
     get_next_point ahk_get_current_mouse_x ahk_get_current_mouse_y g c b
       = Some (Inr None, c', b', g')"
  by (auto simp: AHKMouseController_tick_def split: option.splits prod.splits sum.splits)

lemma pyautogui_tick_done:
  assumes "PyautoguiMouseController_tick d g c b = Some (Inr False, c', b', g')"
  shows "moves b' = moves b
       \<and> (\<forall>d2 g2 b2. PyautoguiMouseController_tick d2 g2 c' b2 = Some (Inr False, c', b2, g2))"
proof -
  from assms have s: "get_next_point pyautogui_get_current_mouse_x pyautogui_get_current_mouse_y
      g c b = Some (Inr None, c', b', g')" by (simp only: pyautogui_tick_cases)
  have "moves b' = moves b" by (rule get_next_point_moves[OF s]) simp_all
  moreover have "PyautoguiMouseController_tick d2 g2 c' b2 = Some (Inr False, c', b2, g2)"
    for d2 g2 b2
    using get_next_point_done[OF get_next_point_stopD[OF s]]
    by (simp add: PyautoguiMouseController_tick_def)
  ultimately show ?thesis by blast
qed

lemma ahk_tick_done:
  assumes "AHKMouseController_tick d g c b = Some (Inr False, c', b', g')"
  shows "moves b' = moves b
       \<and> (\<forall>d2 g2 b2. AHKMouseController_tick d2 g2 c' b2 = Some (Inr False, c', b2, g2))"
proof -
  from assms have s: "get_next_point ahk_get_current_mouse_x ahk_get_current_mouse_y
      g c b = Some (Inr None, c', b', g')" by (simp only: ahk_tick_cases)
  have "moves b' = moves b" by (rule get_next_point_moves[OF s]) simp_all
  moreover have "AHKMouseController_tick d2 g2 c' b2 = Some (Inr False, c', b2, g2)"
    for d2 g2 b2
    using get_next_point_done[OF get_next_point_stopD[OF s]]
    by (simp add: AHKMouseController_tick_def)
  ultimately show ?thesis by blast
qed

subsection \<open>The concrete runs, evaluated\<close>

lemmas step_defs = loop_body_def update_wind_def update_velocity_def advance_def
  cur_dist_def Let_def np_random_def np_round_def

lemma cur_dist_overshoot_start: "cur_dist overshoot_start = 5"
  by (simp add: cur_dist_def wind_mouse_def hypot_values)

lemma cur_dist_free_start: "cur_dist free_start = 20"
  by (simp add: cur_dist_def wind_mouse_def hypot_values)


lemma cur_dist_braking_start: "cur_dist braking_start = 5"
  by (simp add: cur_dist_def wind_mouse_def hypot_values)

lemma overshoot_step:
  "loop_body g overshoot_start = (Inr (Some (4, 5), overshoot_end), g)"
  by (simp add: step_defs wind_mouse_def hypot_values div_sqrt5_not_less)
    (simp add: sqrt5_def)

lemma overshoot_run:
  "wind_mouse_run 1 g overshoot_start = ([(4, 5)], overshoot_end, g, Exhausted)"
  by (simp add: overshoot_step) (simp add: cur_dist_def wind_mouse_def hypot_values)

lemma repelled_step:
  "loop_body g (wind_mouse 0 0 3 4 (- (47 / 8)) 3 15 12) =
     (Inr (Some (- 4, - 5), (wind_mouse 0 0 3 4 (- (47 / 8)) 3 15 12)
        \<lparr>start_x := - (141 / 40), start_y := - (47 / 10), max_step := 15 / sqrt 5,
          current_x := - (141 / 40), current_y := - (47 / 10),
          velocity_x := - (141 / 40), velocity_y := - (47 / 10)\<rparr>), g)"
  by (simp add: step_defs wind_mouse_def hypot_values div_sqrt5_not_less)
    (simp add: sqrt5_def)

lemma free_step:
  "loop_body draws_half free_start = (Inr (Some (9, 0), free_next), draws_half)"
  by (simp add: step_defs wind_mouse_def hypot_values draws_half_def)


lemma braking_step:
  "loop_body draws_half braking_start = (Inr (Some (1, 1), braking_next), draws_half)"
  by (simp add: step_defs wind_mouse_def hypot_values draws_half_def)

lemma wind_mouse_loop_overshoot:
  "wind_mouse_loop g overshoot_start = Some (Inr (Some (4, 5), overshoot_end), g)"
  by (subst wind_mouse_loop.simps) (simp add: overshoot_step cur_dist_overshoot_start)

lemma get_next_point_resting:
  "get_next_point gx gy draws_zero resting_controller idle_backend
     = Some (Inr None, resting_controller\<lparr>c_generator := Some Closed\<rparr>, idle_backend, draws_zero)"
  by (simp add: get_next_point_def controller_init_def generator_next_def
      wind_mouse_loop_exit cur_dist_at_start)

lemma get_next_point_overshoot:
  "get_next_point gx gy draws_zero overshoot_controller idle_backend
     = Some (Inr (Some (4, 5)),
         overshoot_controller\<lparr>c_generator := Some (Suspended overshoot_end),
           c_last_point := Some (4, 5)\<rparr>, idle_backend, draws_zero)"
  by (simp add: get_next_point_def controller_init_def generator_next_def
      wind_mouse_loop_overshoot)

section \<open>The claims\<close>

subsection \<open>C1: consecutive duplicates\<close>

text \<open>
  C1 says that the generator never yields two equal points in a row, a step whose rounded
  position equals the last emitted point being silent. The code does not keep that: on a
  yield it stores the unrounded position in \<^verbatim>\<open>current_x, current_y\<close>, so the next
  comparison is between a fractional position and a rounded one. From \<open>(0, 0)\<close> to
  \<open>(10, 0)\<close> with gravity \<open>0.125\<close>, \<^verbatim>\<open>max_step\<close> \<open>100\<close> and the other parameters at
  their defaults, whatever the draws, the continuous position is \<open>0.125, 0.375, 0.75, 1.25\<close>
  after the first four iterations: the third yields \<open>(1, 0)\<close>, and the fourth, whose
  rounded position is again \<open>(1, 0)\<close>, yields \<open>(1, 0)\<close> once more.
\<close>

theorem duplicate_point_emitted:
  "fst (wind_mouse_run 4 g (wind_mouse 0 0 10 0 (1 / 8) 3 100 12)) = [(1, 0), (1, 0)]"
  by (simp add: eval_nat_numeral step_defs wind_mouse_def hypot_zero_right
      sqrt5_sq div_sqrt5_not_less)

subsection \<open>C2: where a finished run ends\<close>

text \<open>
  C2 as stated (the last yielded point lies within Euclidean distance 1 of the
  destination) fails: the loop stops when the continuous position is within 1 of the
  destination, and the yielded point is that position rounded. From \<open>(0, 0)\<close> to \<open>(3, 4)\<close>
  with gravity \<open>5.875\<close> the single step ends at \<open>(3.525, 4.7)\<close>, at distance \<open>0.875\<close>
  from the destination; the run is over, and its only point \<open>(4, 5)\<close> is at distance
  \<open>sqrt 2\<close>.
\<close>

theorem last_point_within_one_pixel_counterexample:
  "1 \<le> hypot (of_int 3 - of_int 0) (of_int 4 - of_int 0)
 \<and> wind_mouse_run 1 draws_zero (wind_mouse 0 0 3 4 (47 / 8) 3 15 12)
     = ([(4, 5)], overshoot_end, draws_zero, Exhausted)
 \<and> \<not> hypot (of_int 4 - of_int 3) (of_int 5 - of_int 4) \<le> 1"
proof -
  have "hypot 1 1 = sqrt 2" by (simp add: hypot_def)
  moreover have "1 < sqrt 2" by simp
  ultimately have c: "\<not> hypot (of_int 4 - of_int 3) (of_int 5 - of_int 4) \<le> 1" by simp
  have a: "1 \<le> hypot (of_int 3 - of_int 0) (of_int 4 - of_int 0)"
    by (simp add: hypot_values)
  from a c overshoot_run[of draws_zero] show ?thesis by blast
qed

text \<open>
  C2, amended: when a run of the generator finishes after yielding at least one point,
  the list of yielded points is finite, its last point is the final continuous position
  rounded to integers, that final position lies within Euclidean distance 1 of the
  destination, and the last point differs from the destination by at most one pixel on
  each axis.
\<close>

theorem last_point_is_rounded_final_position:
  assumes "wind_mouse_run n g (wind_mouse sx sy dx dy gravity wind mstep damped)
             = (ys, st', g', Exhausted)"
    and "ys \<noteq> []"
  shows "last ys = (np_round (start_x st'), np_round (start_y st'))
       \<and> hypot (of_int dx - start_x st') (of_int dy - start_y st') < 1
       \<and> \<bar>fst (last ys) - dx\<bar> \<le> 1 \<and> \<bar>snd (last ys) - dy\<bar> \<le> 1"
proof -
  have l: "last ys = (np_round (start_x st'), np_round (start_y st'))"
    by (rule run_last[OF assms])
  have "dest_x st' = dx \<and> dest_y st' = dy"
    using run_frame[OF assms(1)] by (simp add: wind_mouse_def)
  with run_exhausted_dist[OF assms(1)]
  have d: "hypot (of_int dx - start_x st') (of_int dy - start_y st') < 1"
    by (simp add: cur_dist_def)
  from rounded_near_dest[OF d] l d show ?thesis by simp
qed

text \<open>The amended C2 on the run above.\<close>

theorem last_point_is_rounded_final_position_witness:
  "wind_mouse_run 1 draws_zero overshoot_start = ([(4, 5)], overshoot_end, draws_zero, Exhausted)
 \<and> [(4, 5)] \<noteq> ([] :: point list)
 \<and> last [(4, 5)] = (np_round (start_x overshoot_end), np_round (start_y overshoot_end))
 \<and> hypot (of_int 3 - start_x overshoot_end) (of_int 4 - start_y overshoot_end) < 1
 \<and> \<bar>fst (last [(4, 5) :: point]) - 3\<bar> \<le> 1 \<and> \<bar>snd (last [(4, 5) :: point]) - 4\<bar> \<le> 1"
proof -
  have r: "wind_mouse_run 1 draws_zero overshoot_start
      = ([(4, 5)], overshoot_end, draws_zero, Exhausted)" by (rule overshoot_run)
  have n: "[(4, 5)] \<noteq> ([] :: point list)" by simp
  from last_point_is_rounded_final_position[OF r n] r n show ?thesis by blast
qed

subsection \<open>C3: parameters outside their domain\<close>

text \<open>
  C3 as stated (a parameter outside its domain raises an error when the generator is
  constructed, before any point is produced) fails: nothing in \<^verbatim>\<open>wind_mouse\<close> inspects
  the parameters. With the negative gravity \<open>-5.875\<close> the first \<^verbatim>\<open>next\<close> returns the
  point \<open>(-4, -5)\<close>.
\<close>

theorem invalid_parameter_counterexample:
  "map_option fst (generator_next draws_zero
      (Suspended (wind_mouse 0 0 3 4 (- (47 / 8)) 3 15 12))) = Some (Inr (Some (- 4, - 5)))"
proof -
  have "1 \<le> cur_dist (wind_mouse 0 0 3 4 (- (47 / 8)) 3 15 12)"
    by (simp add: cur_dist_def wind_mouse_def hypot_values)
  then show ?thesis
    by (subst generator_next_def, subst wind_mouse_loop.simps) (simp add: repelled_step)
qed

text \<open>
  C3, amended: constructing a trajectory generator with a physical parameter outside its
  valid domain (a non-positive \<^verbatim>\<open>max_step\<close>, \<^verbatim>\<open>gravity_magnitude\<close> or
  \<^verbatim>\<open>damped_distance\<close>, say) raises no error: for every tuple of arguments the call
  returns a generator that has produced no point yet and holds the start, the
  destination and the four parameters exactly as they were given.
\<close>

theorem construction_accepts_every_parameter:
  "\<exists>st. wind_mouse_generator sx sy dx dy gravity wind mstep damped = Inr (Suspended st)
     \<and> gravity_magnitude st = gravity \<and> wind_magnitude st = wind
     \<and> max_step st = mstep \<and> damped_distance st = damped
     \<and> start_x st = of_int sx \<and> start_y st = of_int sy \<and> dest_x st = dx \<and> dest_y st = dy
     \<and> velocity_x st = 0 \<and> velocity_y st = 0 \<and> wind_x st = 0 \<and> wind_y st = 0"
  by (simp add: wind_mouse_generator_def wind_mouse_def)

subsection \<open>C4: the controllers' tick\<close>

text \<open>
  C4: once the generator of the current target is exhausted, \<^verbatim>\<open>tick\<close> returns
  \<^verbatim>\<open>False\<close> without calling the backend's move primitive, and every later \<^verbatim>\<open>tick\<close> for
  the unchanged target returns \<^verbatim>\<open>False\<close> again and makes no backend call; while points
  remain, \<^verbatim>\<open>tick\<close> forwards the next point to the move primitive and returns
  \<^verbatim>\<open>True\<close>. For both controllers: when \<^verbatim>\<open>_get_next_point\<close> returns \<^verbatim>\<open>None\<close>, the tick
  returns \<^verbatim>\<open>False\<close>, the list of move calls is as before, and from the controller state
  it leaves, a tick with any duration, on any backend state and any draws returns
  \<^verbatim>\<open>False\<close> and gives back controller, backend and draws untouched (so the same holds
  for the tick after it); when \<^verbatim>\<open>_get_next_point\<close> returns a point, the tick returns
  \<^verbatim>\<open>True\<close> and the backend has received exactly one more call, the move to that point.
\<close>

theorem tick_exhaustion_contract:
  "(get_next_point pyautogui_get_current_mouse_x pyautogui_get_current_mouse_y g c b
        = Some (Inr None, c', b', g') \<longrightarrow>
      PyautoguiMouseController_tick d g c b = Some (Inr False, c', b', g')
    \<and> moves b' = moves b
    \<and> (\<forall>d2 g2 b2. PyautoguiMouseController_tick d2 g2 c' b2 = Some (Inr False, c', b2, g2)))
 \<and> (get_next_point pyautogui_get_current_mouse_x pyautogui_get_current_mouse_y g c b
        = Some (Inr (Some (x, y)), c', b', g') \<longrightarrow>
      PyautoguiMouseController_tick d g c b
        = Some (Inr True, c', b'\<lparr>pointer := (x, y), calls := calls b' @ [MoveTo x y d]\<rparr>, g'))
 \<and> (get_next_point ahk_get_current_mouse_x ahk_get_current_mouse_y g c b
        = Some (Inr None, c', b', g') \<longrightarrow>
      AHKMouseController_tick d g c b = Some (Inr False, c', b', g')
    \<and> moves b' = moves b
    \<and> (\<forall>d2 g2 b2. AHKMouseController_tick d2 g2 c' b2 = Some (Inr False, c', b2, g2)))
 \<and> (get_next_point ahk_get_current_mouse_x ahk_get_current_mouse_y g c b
        = Some (Inr (Some (x, y)), c', b', g') \<longrightarrow>
      AHKMouseController_tick d g c b
        = Some (Inr True, c', b'\<lparr>pointer := (x, y), calls := calls b' @ [MouseMove x y d]\<rparr>, g'))"
proof (intro conjI impI)
  assume s: "get_next_point pyautogui_get_current_mouse_x pyautogui_get_current_mouse_y g c b
        = Some (Inr None, c', b', g')"
  then show t: "PyautoguiMouseController_tick d g c b = Some (Inr False, c', b', g')"
    by (simp only: pyautogui_tick_cases)
  from pyautogui_tick_done[OF t]
  show "moves b' = moves b"
    and "\<forall>d2 g2 b2. PyautoguiMouseController_tick d2 g2 c' b2 = Some (Inr False, c', b2, g2)"
    by simp_all
next
  assume "get_next_point pyautogui_get_current_mouse_x pyautogui_get_current_mouse_y g c b
        = Some (Inr (Some (x, y)), c', b', g')"
  then show "PyautoguiMouseController_tick d g c b
        = Some (Inr True, c', b'\<lparr>pointer := (x, y), calls := calls b' @ [MoveTo x y d]\<rparr>, g')"
    by (simp add: PyautoguiMouseController_tick_def pyautogui_moveTo_def)
next
  assume s: "get_next_point ahk_get_current_mouse_x ahk_get_current_mouse_y g c b
        = Some (Inr None, c', b', g')"
  then show t: "AHKMouseController_tick d g c b = Some (Inr False, c', b', g')"
    by (simp only: ahk_tick_cases)
  from ahk_tick_done[OF t]
  show "moves b' = moves b"
    and "\<forall>d2 g2 b2. AHKMouseController_tick d2 g2 c' b2 = Some (Inr False, c', b2, g2)"
    by simp_all
next
  assume "get_next_point ahk_get_current_mouse_x ahk_get_current_mouse_y g c b
        = Some (Inr (Some (x, y)), c', b', g')"
  then show "AHKMouseController_tick d g c b
        = Some (Inr True, c', b'\<lparr>pointer := (x, y), calls := calls b' @ [MouseMove x y d]\<rparr>, g')"
    by (simp add: AHKMouseController_tick_def ahk_mouse_move_def)
qed

text \<open>
  C4 on two controllers: one whose target is its start, exhausted at the first tick, and
  one on its way from \<open>(0, 0)\<close> to \<open>(3, 4)\<close>, whose first tick moves the pointer to
  \<open>(4, 5)\<close>.
\<close>

theorem tick_exhaustion_contract_witness:
  "PyautoguiMouseController_tick (1 / 10) draws_zero resting_controller idle_backend
     = Some (Inr False, resting_controller\<lparr>c_generator := Some Closed\<rparr>, idle_backend, draws_zero)
 \<and> moves idle_backend = []
 \<and> (\<forall>d2 g2 b2. PyautoguiMouseController_tick d2 g2
        (resting_controller\<lparr>c_generator := Some Closed\<rparr>) b2
      = Some (Inr False, resting_controller\<lparr>c_generator := Some Closed\<rparr>, b2, g2))
 \<and> PyautoguiMouseController_tick (1 / 10) draws_zero overshoot_controller idle_backend
     = Some (Inr True,
         overshoot_controller\<lparr>c_generator := Some (Suspended overshoot_end),
           c_last_point := Some (4, 5)\<rparr>,
         idle_backend\<lparr>pointer := (4, 5), calls := calls idle_backend @ [MoveTo 4 5 (1 / 10)]\<rparr>,
         draws_zero)
 \<and> AHKMouseController_tick 2 draws_zero resting_controller idle_backend
     = Some (Inr False, resting_controller\<lparr>c_generator := Some Closed\<rparr>, idle_backend, draws_zero)
 \<and> (\<forall>d2 g2 b2. AHKMouseController_tick d2 g2
        (resting_controller\<lparr>c_generator := Some Closed\<rparr>) b2
      = Some (Inr False, resting_controller\<lparr>c_generator := Some Closed\<rparr>, b2, g2))
 \<and> AHKMouseController_tick 2 draws_zero overshoot_controller idle_backend
     = Some (Inr True,
         overshoot_controller\<lparr>c_generator := Some (Suspended overshoot_end),
           c_last_point := Some (4, 5)\<rparr>,
         idle_backend\<lparr>pointer := (4, 5), calls := calls idle_backend @ [MouseMove 4 5 2]\<rparr>,
         draws_zero)"
proof -
  have m: "moves idle_backend = []" by (simp add: moves_def)
  note a = tick_exhaustion_contract[of draws_zero resting_controller idle_backend
      "resting_controller\<lparr>c_generator := Some Closed\<rparr>" idle_backend draws_zero "1 / 10" 0 0]
  note b = tick_exhaustion_contract[of draws_zero overshoot_controller idle_backend
      "overshoot_controller\<lparr>c_generator := Some (Suspended overshoot_end),
           c_last_point := Some (4, 5)\<rparr>" idle_backend draws_zero "1 / 10" 4 5]
  note c = tick_exhaustion_contract[of draws_zero resting_controller idle_backend
      "resting_controller\<lparr>c_generator := Some Closed\<rparr>" idle_backend draws_zero 2 0 0]
  note d = tick_exhaustion_contract[of draws_zero overshoot_controller idle_backend
      "overshoot_controller\<lparr>c_generator := Some (Suspended overshoot_end),
           c_last_point := Some (4, 5)\<rparr>" idle_backend draws_zero 2 4 5]
  note a1 = a[THEN conjunct1, rule_format, OF get_next_point_resting]
  note b1 = b[THEN conjunct2, THEN conjunct1, rule_format, OF get_next_point_overshoot]
  note c1 = c[THEN conjunct2, THEN conjunct2, THEN conjunct1, rule_format,
      OF get_next_point_resting]
  note d1 = d[THEN conjunct2, THEN conjunct2, THEN conjunct2, rule_format,
      OF get_next_point_overshoot]
  from a1 b1 c1 d1 m show ?thesis by simp
qed

subsection \<open>C5: destination equal to start\<close>

text \<open>
  C5: when the destination equals the start, the generator yields no point, and a
  controller with that target returns \<^verbatim>\<open>False\<close> from its first \<^verbatim>\<open>tick\<close> without calling
  the backend's move primitive. A run of any length yields the empty list and is over
  at once, the first \<^verbatim>\<open>next\<close> stops, and the first tick of either controller returns
  \<^verbatim>\<open>False\<close> with the backend and the draws untouched.
\<close>

theorem zero_distance_yields_nothing:
  "wind_mouse_run n g (wind_mouse x y x y gravity wind mstep damped)
     = ([], wind_mouse x y x y gravity wind mstep damped, g, Exhausted)
 \<and> generator_next g (Suspended (wind_mouse x y x y gravity wind mstep damped))
     = Some (Inr None, Closed, g)
 \<and> PyautoguiMouseController_tick d g
       (controller_init (Some x) (Some y) (Some x) (Some y) gravity wind mstep damped) b
     = Some (Inr False,
         (controller_init (Some x) (Some y) (Some x) (Some y) gravity wind mstep damped)
           \<lparr>c_generator := Some Closed\<rparr>, b, g)
 \<and> AHKMouseController_tick d g
       (controller_init (Some x) (Some y) (Some x) (Some y) gravity wind mstep damped) b
     = Some (Inr False,
         (controller_init (Some x) (Some y) (Some x) (Some y) gravity wind mstep damped)
           \<lparr>c_generator := Some Closed\<rparr>, b, g)"
proof -
  let ?st = "wind_mouse x y x y gravity wind mstep damped"
  have d: "\<not> 1 \<le> cur_dist ?st" by (simp add: cur_dist_at_start)
  have r: "wind_mouse_run n g ?st = ([], ?st, g, Exhausted)"
    using d by (cases n) simp_all
  have n: "generator_next g (Suspended ?st) = Some (Inr None, Closed, g)"
    by (simp add: generator_next_def wind_mouse_loop_exit[OF d])
  have p: "get_next_point gx gy g
       (controller_init (Some x) (Some y) (Some x) (Some y) gravity wind mstep damped) b
     = Some (Inr None,
         (controller_init (Some x) (Some y) (Some x) (Some y) gravity wind mstep damped)
           \<lparr>c_generator := Some Closed\<rparr>, b, g)" for gx gy
    by (simp add: get_next_point_def controller_init_def n)
  show ?thesis
    using r n by (simp add: PyautoguiMouseController_tick_def AHKMouseController_tick_def p)
qed

subsection \<open>C6: the wind far from the destination\<close>

text \<open>
  C6: on every step whose distance to the destination is at least
  \<^verbatim>\<open>damped_distance\<close>, each wind component becomes
  \<open>wind / sqrt 3 + u * min wind_magnitude dist / sqrt 5\<close>, with a draw \<open>u\<close> of its own:
  \<open>u = 2 * r - 1\<close> for the next draw \<open>r\<close> for x and for the draw after it for y, which
  lies in \<open>[-1, 1)\<close> when the draws lie in \<open>[0, 1)\<close>. \<^verbatim>\<open>max_step\<close> is not touched.
\<close>

theorem free_regime_wind_update:
  assumes "damped_distance st \<le> cur_dist st"
    and "loop_body g st = (Inr (out, st'), g')"
  shows "wind_x st' = wind_x st / sqrt 3
            + (2 * g 0 - 1) * min (wind_magnitude st) (cur_dist st) / sqrt 5
       \<and> wind_y st' = wind_y st / sqrt 3
            + (2 * g 1 - 1) * min (wind_magnitude st) (cur_dist st) / sqrt 5
       \<and> max_step st' = max_step st
       \<and> (unit_draws g \<longrightarrow> - 1 \<le> 2 * g 0 - 1 \<and> 2 * g 0 - 1 < 1
                             \<and> - 1 \<le> 2 * g 1 - 1 \<and> 2 * g 1 - 1 < 1)"
proof -
  from loop_body_InrD[OF assms(2)] obtain st1 g1 st2 where
    a: "update_wind g st = (st1, g1)" and b: "update_velocity g1 st1 = (Inr st2, g')"
    and c: "advance st2 = (out, st')" by blast
  have w: "wind_x st1 = wind_x st / sqrt 3
            + (2 * g 0 - 1) * min (wind_magnitude st) (cur_dist st) / sqrt 5
       \<and> wind_y st1 = wind_y st / sqrt 3
            + (2 * g 1 - 1) * min (wind_magnitude st) (cur_dist st) / sqrt 5
       \<and> max_step st1 = max_step st"
    using a assms(1) by (auto simp: update_wind_def Let_def np_random_def sqrt3_def sqrt5_def)
  have u: "unit_draws g \<longrightarrow> - 1 \<le> 2 * g 0 - 1 \<and> 2 * g 0 - 1 < 1
                             \<and> - 1 \<le> 2 * g 1 - 1 \<and> 2 * g 1 - 1 < 1"
    by (auto simp: unit_draws_def dest: spec[of _ 0] spec[of _ 1])
  show ?thesis
    using w u update_velocity_frame[OF b] advance_frame[OF c] by simp
qed

text \<open>C6 on the first step from \<open>(0, 0)\<close> to \<open>(20, 0)\<close>, every draw being \<open>1/2\<close>.\<close>

theorem free_regime_wind_update_witness:
  "damped_distance free_start \<le> cur_dist free_start
 \<and> loop_body draws_half free_start = (Inr (Some (9, 0), free_next), draws_half)
 \<and> wind_x free_next = wind_x free_start / sqrt 3
      + (2 * draws_half 0 - 1) * min (wind_magnitude free_start) (cur_dist free_start) / sqrt 5
 \<and> wind_y free_next = wind_y free_start / sqrt 3
      + (2 * draws_half 1 - 1) * min (wind_magnitude free_start) (cur_dist free_start) / sqrt 5
 \<and> max_step free_next = max_step free_start
 \<and> unit_draws draws_half
 \<and> - 1 \<le> 2 * draws_half 0 - 1 \<and> 2 * draws_half 0 - 1 < 1"
proof -
  have h: "damped_distance free_start \<le> cur_dist free_start"
    by (simp add: cur_dist_free_start) (simp add: wind_mouse_def)
  from free_regime_wind_update[OF h free_step] h free_step unit_draws_half
  show ?thesis by blast
qed

subsection \<open>C7: the wind and \<^verbatim>\<open>max_step\<close> near the destination\<close>

text \<open>
  C7: on every step whose distance to the destination is below \<^verbatim>\<open>damped_distance\<close>,
  both wind components are divided by \<open>sqrt 3\<close> and no draw enters them, and
  \<^verbatim>\<open>max_step\<close> becomes \<open>3 * r + 3\<close> for the next draw \<open>r\<close>, a value in \<open>[3, 6)\<close>, when it
  was below \<open>3\<close>, and is divided by \<open>sqrt 5\<close> otherwise.
\<close>

theorem damped_regime_wind_and_max_step:
  assumes "cur_dist st < damped_distance st"
    and "loop_body g st = (Inr (out, st'), g')"
  shows "wind_x st' = wind_x st / sqrt 3 \<and> wind_y st' = wind_y st / sqrt 3
       \<and> (max_step st < 3 \<longrightarrow> max_step st' = g 0 * 3 + 3
             \<and> (unit_draws g \<longrightarrow> 3 \<le> max_step st' \<and> max_step st' < 6))
       \<and> (\<not> max_step st < 3 \<longrightarrow> max_step st' = max_step st / sqrt 5)"
proof -
  from loop_body_InrD[OF assms(2)] obtain st1 g1 st2 where
    a: "update_wind g st = (st1, g1)" and b: "update_velocity g1 st1 = (Inr st2, g')"
    and c: "advance st2 = (out, st')" by blast
  have w: "wind_x st1 = wind_x st / sqrt 3 \<and> wind_y st1 = wind_y st / sqrt 3
       \<and> (max_step st < 3 \<longrightarrow> max_step st1 = g 0 * 3 + 3)
       \<and> (\<not> max_step st < 3 \<longrightarrow> max_step st1 = max_step st / sqrt 5)"
    using a assms(1)
    by (auto simp: update_wind_def Let_def np_random_def sqrt3_def sqrt5_def split: if_splits)
  have u: "unit_draws g \<Longrightarrow> 3 \<le> g 0 * 3 + 3 \<and> g 0 * 3 + 3 < 6"
    by (auto simp: unit_draws_def dest: spec[of _ 0])
  show ?thesis
    using w u update_velocity_frame[OF b] advance_frame[OF c] by auto
qed

text \<open>
  C7 on two first steps from \<open>(0, 0)\<close> to \<open>(3, 4)\<close>: with \<^verbatim>\<open>max_step\<close> \<open>15\<close>, divided by
  \<open>sqrt 5\<close>, and with \<^verbatim>\<open>max_step\<close> \<open>2\<close>, replaced by \<open>3 * 1/2 + 3\<close>.
\<close>

theorem damped_regime_wind_and_max_step_witness:
  "cur_dist overshoot_start < damped_distance overshoot_start
 \<and> loop_body draws_zero overshoot_start = (Inr (Some (4, 5), overshoot_end), draws_zero)
 \<and> wind_x overshoot_end = wind_x overshoot_start / sqrt 3
 \<and> wind_y overshoot_end = wind_y overshoot_start / sqrt 3
 \<and> \<not> max_step overshoot_start < 3
 \<and> max_step overshoot_end = max_step overshoot_start / sqrt 5
 \<and> cur_dist braking_start < damped_distance braking_start
 \<and> loop_body draws_half braking_start = (Inr (Some (1, 1), braking_next), draws_half)
 \<and> max_step braking_start < 3
 \<and> max_step braking_next = draws_half 0 * 3 + 3
 \<and> 3 \<le> max_step braking_next \<and> max_step braking_next < 6"
proof -
  have h1: "cur_dist overshoot_start < damped_distance overshoot_start"
    by (simp add: cur_dist_overshoot_start) (simp add: wind_mouse_def)
  have h2: "cur_dist braking_start < damped_distance braking_start"
    by (simp add: cur_dist_braking_start) (simp add: wind_mouse_def)
  have m1: "\<not> max_step overshoot_start < 3" by (simp add: wind_mouse_def)
  have m2: "max_step braking_start < 3" by (simp add: wind_mouse_def)
  from damped_regime_wind_and_max_step[OF h1 overshoot_step]
    damped_regime_wind_and_max_step[OF h2 braking_step]
    h1 h2 m1 m2 overshoot_step braking_step unit_draws_half
  show ?thesis by blast
qed

subsection \<open>C8: the velocity\<close>



subsection \<open>C10: the parameters that stay\<close>

text \<open>
  C10: of the four physical parameters only \<^verbatim>\<open>max_step\<close> is ever reassigned: after any
  number of iterations, however the run went, \<^verbatim>\<open>gravity_magnitude\<close>, \<^verbatim>\<open>wind_magnitude\<close>
  and \<^verbatim>\<open>damped_distance\<close> hold the values the generator was constructed with.
\<close>

theorem only_max_step_is_mutated:
  assumes "wind_mouse_run n g (wind_mouse sx sy dx dy gravity wind mstep damped)
             = (ys, st', g', e)"
  shows "gravity_magnitude st' = gravity \<and> wind_magnitude st' = wind
       \<and> damped_distance st' = damped"
  using run_frame[OF assms] by (simp add: wind_mouse_def)

text \<open>
  C10 on the step from \<open>(0, 0)\<close> to \<open>(3, 4)\<close>, which does change \<^verbatim>\<open>max_step\<close>.
\<close>

theorem only_max_step_is_mutated_witness:
  "wind_mouse_run 1 draws_zero overshoot_start = ([(4, 5)], overshoot_end, draws_zero, Exhausted)
 \<and> gravity_magnitude overshoot_end = 47 / 8 \<and> wind_magnitude overshoot_end = 3
 \<and> damped_distance overshoot_end = 12
 \<and> max_step overshoot_end \<noteq> max_step overshoot_start"
proof -
  have r: "wind_mouse_run 1 draws_zero overshoot_start
      = ([(4, 5)], overshoot_end, draws_zero, Exhausted)" by (rule overshoot_run)
  have "1 < sqrt 5" by simp
  then have "15 / sqrt 5 < 15" by (simp add: field_simps)
  then have m: "max_step overshoot_end \<noteq> max_step overshoot_start"
    by (simp add: wind_mouse_def)
  from only_max_step_is_mutated[OF r] r m show ?thesis by blast
qed

end
